theory Spec2Isabelle
  imports Complex_Main
begin

section \<open>Go values, errors and panics\<close>

text \<open>
  The package returns three error values (\<open>ErrRowSize\<close>, \<open>ErrRowIndex\<close>,
  \<open>ErrColumnIndex\<close>). Besides them, the Go runtime stops a call with a panic on an
  integer division by zero, an index outside a slice's length, slice bounds outside the
  capacity, a negative length given to \<open>make\<close>, and a nil pointer dereference. A
  function that can panic has the result type \<open>panic + 'r\<close>; a returned Go \<open>error\<close>
  is an \<open>error option\<close> (\<open>None\<close> is \<open>nil\<close>), and a Go pair \<open>(value, error)\<close> is
  \<open>error + 'v\<close>.

  Go's \<open>int\<close> is written as \<open>int\<close>. The integers the operations compute are slice
  lengths, quotients of them, cursor positions counted up from \<open>-1\<close>, and offsets that
  were compared with a length or a row count before they are used; no statement below
  depends on 64-bit wrap-around.
\<close>

datatype error = ErrRowSize | ErrRowIndex | ErrColumnIndex

datatype panic =
  DivideByZero | IndexOutOfRange | SliceBoundsOutOfRange | MakeSliceLenOutOfRange | NilDereference

text \<open>Go's integer quotient \<open>x / y\<close> truncates towards zero and panics when \<open>y = 0\<close>.\<close>

definition quo :: "int \<Rightarrow> int \<Rightarrow> panic + int" where
  "quo x y = (if y = 0 then Inl DivideByZero else Inr (sgn x * sgn y * (\<bar>x\<bar> div \<bar>y\<bar>)))"

text \<open>The index expression \<open>s[k]\<close>: a panic unless \<open>0 \<le> k < len(s)\<close>.\<close>

definition index :: "'a list \<Rightarrow> int \<Rightarrow> panic + 'a" where
  "index s k = (if 0 \<le> k \<and> k < int (length s) then Inr (s ! nat k) else Inl IndexOutOfRange)"

text \<open>The assignment \<open>s[k] = v\<close>, with the same check.\<close>

definition assign :: "'a list \<Rightarrow> int \<Rightarrow> 'a \<Rightarrow> panic + 'a list" where
  "assign s k v = (if 0 \<le> k \<and> k < int (length s) then Inr (s[nat k := v]) else Inl IndexOutOfRange)"

text \<open>
  The slice expression \<open>s[lo:hi]\<close>. Go checks \<open>0 \<le> lo \<le> hi \<le> cap(s)\<close>, the capacity and
  not the length: the window may reach into the part of the backing array behind the
  length. That part is not determined by the struct's visible state (it depends on how
  \<open>append\<close> grew the array), so it is the parameter \<open>spare\<close>: the elements of the
  backing array from \<open>len(s)\<close> up to \<open>cap(s)\<close>.
\<close>

definition slice :: "'a list \<Rightarrow> 'a list \<Rightarrow> int \<Rightarrow> int \<Rightarrow> panic + 'a list" where
  "slice s spare lo hi =
     (if 0 \<le> lo \<and> lo \<le> hi \<and> hi \<le> int (length s) + int (length spare)
      then Inr (take (nat (hi - lo)) (drop (nat lo) (s @ spare)))
      else Inl SliceBoundsOutOfRange)"

section \<open>The dense matrix (matrixfloat64.go)\<close>

text \<open>
  \<open>MatrixFloat64\<close> is a struct of a slice and a column count. The operations on cells, rows
  and columns never inspect an element, so the element type is a parameter; the ones that
  sum rows are stated on \<open>real\<close>.
\<close>

record 'a MatrixFloat64 =
  data :: "'a list"
  columns :: int

definition NewMatrixFloat64 :: "int \<Rightarrow> 'a MatrixFloat64" where
  "NewMatrixFloat64 cols = \<lparr>data = [], columns = cols\<rparr>"

text \<open>\<open>AddRow\<close> returns the error and the matrix as the call leaves it.\<close>

definition AddRow :: "'a MatrixFloat64 \<Rightarrow> 'a list \<Rightarrow> error option \<times> 'a MatrixFloat64" where
  "AddRow m row =
     (if int (length row) \<noteq> columns m then (Some ErrRowSize, m)
      else (None, m\<lparr>data := data m @ row\<rparr>))"

definition Columns :: "'a MatrixFloat64 \<Rightarrow> int" where
  "Columns m = columns m"

definition Rows :: "'a MatrixFloat64 \<Rightarrow> panic + int" where
  "Rows m = quo (int (length (data m))) (columns m)"

definition Dimensions :: "'a MatrixFloat64 \<Rightarrow> panic + (int \<times> int)" where
  "Dimensions m = (case Rows m of Inl p \<Rightarrow> Inl p | Inr r \<Rightarrow> Inr (r, columns m))"

definition checkRowAndColumnBounds :: "'a MatrixFloat64 \<Rightarrow> int \<Rightarrow> int \<Rightarrow> panic + error option" where
  "checkRowAndColumnBounds m row column =
     (case quo (int (length (data m))) (columns m) of
        Inl p \<Rightarrow> Inl p
      | Inr rows \<Rightarrow>
          Inr (if row > rows \<or> row < 0 then Some ErrRowIndex
               else if column < 0 \<or> column > columns m then Some ErrColumnIndex
               else None))"

text \<open>
  \<open>GetRow\<close> returns a window of the backing array; the model returns its elements.
\<close>

definition GetRow :: "'a MatrixFloat64 \<Rightarrow> 'a list \<Rightarrow> int \<Rightarrow> panic + (error + 'a list)" where
  "GetRow m spare row =
     (case checkRowAndColumnBounds m row 0 of
        Inl p \<Rightarrow> Inl p
      | Inr (Some err) \<Rightarrow> Inr (Inl err)
      | Inr None \<Rightarrow>
          (let start = row * columns m in
           case slice (data m) spare start (start + columns m) of
             Inl p \<Rightarrow> Inl p
           | Inr r \<Rightarrow> Inr (Inr r)))"

definition GetValue :: "'a MatrixFloat64 \<Rightarrow> int \<Rightarrow> int \<Rightarrow> panic + (error + 'a)" where
  "GetValue m row column =
     (case checkRowAndColumnBounds m row column of
        Inl p \<Rightarrow> Inl p
      | Inr (Some err) \<Rightarrow> Inr (Inl err)
      | Inr None \<Rightarrow>
          (case index (data m) (row * columns m + column) of
             Inl p \<Rightarrow> Inl p
           | Inr v \<Rightarrow> Inr (Inr v)))"

text \<open>
  \<open>UpdateValue\<close> writes one element in place. The model returns the error and the matrix
  after the call; a panic happens before anything is written.
\<close>

definition UpdateValue :: "'a MatrixFloat64 \<Rightarrow> 'a \<Rightarrow> int \<Rightarrow> int \<Rightarrow> panic + (error option \<times> 'a MatrixFloat64)" where
  "UpdateValue m v row column =
     (case checkRowAndColumnBounds m row column of
        Inl p \<Rightarrow> Inl p
      | Inr (Some err) \<Rightarrow> Inr (Some err, m)
      | Inr None \<Rightarrow>
          (case assign (data m) (row * columns m + column) v of
             Inl p \<Rightarrow> Inl p
           | Inr d \<Rightarrow> Inr (None, m\<lparr>data := d\<rparr>)))"

text \<open>
  The loops over rows all have the header
  \<^verbatim>\<open>for i := 0; i+m.columns < len(m.data)-1; i += m.columns\<close>.
  With a column count of 0 and at least two elements the header never becomes false, so
  the loops are partial functions: \<open>None\<close> is a run that does not return. Inside the
  loop a row window \<open>m.data[i : i+m.columns]\<close> ends before the length, so the spare
  capacity plays no role and is given as \<open>[]\<close>.
\<close>

partial_function (option) GetColumnData_loop ::
  "'a MatrixFloat64 \<Rightarrow> int \<Rightarrow> int \<Rightarrow> 'a list \<Rightarrow> (panic + 'a list) option" where
  "GetColumnData_loop m column i acc =
     (if i + columns m < int (length (data m)) - 1
      then (case index (data m) (i + column) of
              Inl p \<Rightarrow> Some (Inl p)
            | Inr v \<Rightarrow> GetColumnData_loop m column (i + columns m) (acc @ [v]))
      else Some (Inr acc))"

definition GetColumnData :: "'a MatrixFloat64 \<Rightarrow> int \<Rightarrow> (panic + (error + 'a list)) option" where
  "GetColumnData m column =
     (if column < 0 \<or> column \<ge> columns m then Some (Inr (Inl ErrColumnIndex))
      else (case GetColumnData_loop m column 0 [] of
              None \<Rightarrow> None
            | Some (Inl p) \<Rightarrow> Some (Inl p)
            | Some (Inr acc) \<Rightarrow> Some (Inr (Inr acc))))"

text \<open>
  \<open>MaxSum\<close> and \<open>MinSum\<close> compare row sums. A \<open>float64\<close> is written as a \<open>real\<close>
  here, which is exact on the values the statements below evaluate (small integers and
  their sums). \<open>Sum\<close> is the method of the slice library: the sum of the elements, from
  \<open>0\<close>, left to right. \<open>math.SmallestNonzeroFloat64\<close> is \<open>2\<^sup>-\<^sup>1\<^sup>0\<^sup>7\<^sup>4\<close> and
  \<open>math.MaxFloat64\<close> is \<open>2\<^sup>1\<^sup>0\<^sup>2\<^sup>3 \<sqdot> (2 - 2\<^sup>-\<^sup>5\<^sup>2)\<close>. The result variable starts as the nil
  slice, written \<open>[]\<close>.
\<close>

definition Sum :: "real list \<Rightarrow> real" where
  "Sum s = foldl (+) 0 s"

definition SmallestNonzeroFloat64 :: real where
  "SmallestNonzeroFloat64 = 1 / 2 ^ 1074"

definition MaxFloat64 :: real where
  "MaxFloat64 = 2 ^ 1023 * (2 - 1 / 2 ^ 52)"

partial_function (option) MaxSum_loop ::
  "real MatrixFloat64 \<Rightarrow> real \<Rightarrow> int \<Rightarrow> real list \<Rightarrow> (panic + real list) option" where
  "MaxSum_loop m maxSum i mx =
     (if i + columns m < int (length (data m)) - 1
      then (case slice (data m) [] i (i + columns m) of
              Inl p \<Rightarrow> Some (Inl p)
            | Inr row \<Rightarrow>
                MaxSum_loop m maxSum (i + columns m) (if Sum row > maxSum then row else mx))
      else Some (Inr mx))"

definition MaxSum :: "real MatrixFloat64 \<Rightarrow> (panic + real list) option" where
  "MaxSum m = MaxSum_loop m SmallestNonzeroFloat64 0 []"

partial_function (option) MinSum_loop ::
  "real MatrixFloat64 \<Rightarrow> real \<Rightarrow> int \<Rightarrow> real list \<Rightarrow> (panic + real list) option" where
  "MinSum_loop m minSum i mn =
     (if i + columns m < int (length (data m)) - 1
      then (case slice (data m) [] i (i + columns m) of
              Inl p \<Rightarrow> Some (Inl p)
            | Inr row \<Rightarrow>
                MinSum_loop m minSum (i + columns m) (if Sum row < minSum then row else mn))
      else Some (Inr mn))"

definition MinSum :: "real MatrixFloat64 \<Rightarrow> (panic + real list) option" where
  "MinSum m = MinSum_loop m MaxFloat64 0 []"

subsection \<open>Sample: matrices behind pointers\<close>

text \<open>
  \<open>Sample\<close> returns a pointer, either to a matrix it allocated or the receiver itself, so
  it is stated over a store of matrices: a pointer is an index into the store, and an
  allocation extends the store at its end. The random source is the sequence \<open>rnd\<close> of the
  results that the calls of \<open>rand.Intn(100)\<close> give, read from position \<open>k\<close>. The test
  \<^verbatim>\<open>float64(rand.Intn(100)) < percentage\<close>, with
  \<^verbatim>\<open>percentage := (float64(amount) / float64(len(m.data))) * 100\<close>, is computed in
  binary floating point; it is the parameter \<open>below\<close>, applied to the draw, the amount
  and the length.
\<close>

type_synonym ref = nat

type_synonym 'a store = "'a MatrixFloat64 list"

definition alloc :: "'a store \<Rightarrow> 'a MatrixFloat64 \<Rightarrow> 'a store \<times> ref" where
  "alloc st m = (st @ [m], length st)"

partial_function (option) Sample_loop ::
  "(int \<Rightarrow> int \<Rightarrow> int \<Rightarrow> bool) \<Rightarrow> (nat \<Rightarrow> int) \<Rightarrow> 'a MatrixFloat64 \<Rightarrow> int \<Rightarrow>
   'a MatrixFloat64 \<Rightarrow> int \<Rightarrow> nat \<Rightarrow> (panic + 'a MatrixFloat64) option" where
  "Sample_loop below rnd m amount sample i k =
     (if i + columns m < int (length (data m)) - 1
      then (case slice (data m) [] i (i + columns m) of
              Inl p \<Rightarrow> Some (Inl p)
            | Inr row \<Rightarrow>
                Sample_loop below rnd m amount
                  (if below (rnd k) amount (int (length (data m))) then snd (AddRow sample row)
                   else sample)
                  (i + columns m) (Suc k))
      else Some (Inr sample))"

definition Sample ::
  "(int \<Rightarrow> int \<Rightarrow> int \<Rightarrow> bool) \<Rightarrow> (nat \<Rightarrow> int) \<Rightarrow> 'a store \<Rightarrow> ref \<Rightarrow> int \<Rightarrow>
   (panic + ('a store \<times> ref)) option" where
  "Sample below rnd st p amount =
     (if p < length st
      then (let m = st ! p;
                (st1, sample) = alloc st (NewMatrixFloat64 (columns m))
            in if amount < 0 then Some (Inr (st1, sample))
               else if amount \<ge> int (length (data m)) then Some (Inr (st1, p))
               else (case Sample_loop below rnd m amount (st1 ! sample) 0 0 of
                       None \<Rightarrow> None
                     | Some (Inl e) \<Rightarrow> Some (Inl e)
                     | Some (Inr sm) \<Rightarrow> Some (Inr (st1[sample := sm], sample))))
      else Some (Inl NilDereference))"

section \<open>The row iterator\<close>

text \<open>
  The iterator holds the matrix it traverses and a row cursor. The matrix is not changed
  while the statements below drive an iterator, so the iterator carries the matrix's
  value.
\<close>

record 'a Iterator =
  Matrix :: "'a MatrixFloat64"
  row :: int

definition Iterator :: "'a MatrixFloat64 \<Rightarrow> 'a Iterator" where
  "Iterator m = \<lparr>Matrix = m, row = -1\<rparr>"

text \<open>\<open>Next\<close> advances the cursor and returns its verdict with the advanced iterator.\<close>

definition Next :: "'a Iterator \<Rightarrow> panic + (bool \<times> 'a Iterator)" where
  "Next it =
     (let it' = it\<lparr>row := row it + 1\<rparr>
      in case Rows (Matrix it') of
           Inl p \<Rightarrow> Inl p
         | Inr rows \<Rightarrow> Inr (if row it' > rows then False else True, it'))"

definition RowIndices :: "'a Iterator \<Rightarrow> int list" where
  "RowIndices it =
     (let r = (if row it < 0 then 0 else row it);
          start = r * Columns (Matrix it)
      in [start .. start + Columns (Matrix it) - 1])"

text \<open>The result of \<open>n\<close> successive calls of \<open>Next\<close>, in order, and the iterator after them.\<close>

fun Next_calls :: "nat \<Rightarrow> 'a Iterator \<Rightarrow> panic + (bool list \<times> 'a Iterator)" where
  "Next_calls 0 it = Inr ([], it)"
| "Next_calls (Suc n) it =
     (case Next it of
        Inl p \<Rightarrow> Inl p
      | Inr (b, it') \<Rightarrow>
          (case Next_calls n it' of
             Inl p \<Rightarrow> Inl p
           | Inr (bs, it'') \<Rightarrow> Inr (b # bs, it'')))"

subsection \<open>AppendColumn\<close>

text \<open>\<open>make(sam.SliceFloat64, n, n)\<close>: \<open>n\<close> zero values, a panic when \<open>n\<close> is negative.\<close>

definition makeslice :: "int \<Rightarrow> panic + ('a::zero) list" where
  "makeslice n = (if n < 0 then Inl MakeSliceLenOutOfRange else Inr (replicate (nat n) 0))"

text \<open>The inner loop \<^verbatim>\<open>for _, index := range indices { data[index] = m.data[index] }\<close>.\<close>

fun copy_indices :: "'a list \<Rightarrow> 'a list \<Rightarrow> int list \<Rightarrow> panic + 'a list" where
  "copy_indices src buf [] = Inr buf"
| "copy_indices src buf (k # ks) =
     (case index src k of
        Inl p \<Rightarrow> Inl p
      | Inr v \<Rightarrow>
          (case assign buf k v of
             Inl p \<Rightarrow> Inl p
           | Inr buf' \<Rightarrow> copy_indices src buf' ks))"

text \<open>The loop \<^verbatim>\<open>for iter.Next() { ... }\<close> of \<open>AppendColumn\<close>, on the new buffer.\<close>

function AppendColumn_loop ::
  "'a MatrixFloat64 \<Rightarrow> 'a \<Rightarrow> 'a Iterator \<Rightarrow> 'a list \<Rightarrow> panic + 'a list" where
  "AppendColumn_loop m defaultValue iter buf =
     (case Next iter of
        Inl p \<Rightarrow> Inl p
      | Inr (False, iter') \<Rightarrow> Inr buf
      | Inr (True, iter') \<Rightarrow>
          (let indices = RowIndices iter' in
           case copy_indices (data m) buf indices of
             Inl p \<Rightarrow> Inl p
           | Inr buf1 \<Rightarrow>
               (case index indices (int (length indices) - 1) of
                  Inl p \<Rightarrow> Inl p
                | Inr lastIndex \<Rightarrow>
                    (case assign buf1 (lastIndex + 1) defaultValue of
                       Inl p \<Rightarrow> Inl p
                     | Inr buf2 \<Rightarrow> AppendColumn_loop m defaultValue iter' buf2))))"
  by pat_completeness auto
termination
  apply (relation "measure (\<lambda>(m, d, iter, buf).
         case Rows (Matrix iter) of Inl p \<Rightarrow> 0 | Inr rows \<Rightarrow> nat (rows - row iter))")
   apply simp
  apply (auto simp: Next_def Let_def split: sum.splits if_splits)
  done

declare AppendColumn_loop.simps [simp del]

definition AppendColumn :: "('a::zero) MatrixFloat64 \<Rightarrow> 'a \<Rightarrow> panic + 'a MatrixFloat64" where
  "AppendColumn m defaultValue =
     (case Rows m of
        Inl p \<Rightarrow> Inl p
      | Inr rows \<Rightarrow>
          (case makeslice (int (length (data m)) + rows) of
             Inl p \<Rightarrow> Inl p
           | Inr buf \<Rightarrow>
               (case AppendColumn_loop m defaultValue (Iterator m) buf of
                  Inl p \<Rightarrow> Inl p
                | Inr buf' \<Rightarrow> Inr (m\<lparr>columns := columns m + 1, data := buf'\<rparr>))))"

section \<open>The sparse matrix\<close>

text \<open>
  \<open>Sparse\<close> is a struct of the column mark \<open>C\<close> and a map from row indices to maps from
  column indices to values. Go maps are references: writing through the row map that was
  looked up (or just created) changes the row stored in \<open>Data\<close>, so each operation returns
  the struct with that row replaced. A lookup in a map, also in the nil map of a missing
  row, gives the zero value when the key is absent. Values are written as \<open>real\<close>;
  the increment of a missing cell computes \<open>0 + 1\<close>, which is exact.
\<close>

record Sparse =
  C :: int
  Data :: "int \<rightharpoonup> (int \<rightharpoonup> real)"

definition NewSparse :: Sparse where
  "NewSparse = \<lparr>C = 0, Data = Map.empty\<rparr>"

definition lookup0 :: "(int \<rightharpoonup> real) \<Rightarrow> int \<Rightarrow> real" where
  "lookup0 rowmap j = (case rowmap j of None \<Rightarrow> 0 | Some v \<Rightarrow> v)"

definition Set :: "Sparse \<Rightarrow> int \<Rightarrow> int \<Rightarrow> real \<Rightarrow> Sparse" where
  "Set s i j v =
     (let rowmap = (case Data s i of None \<Rightarrow> Map.empty | Some r \<Rightarrow> r);
          c = (if j > C s then j else C s)
      in \<lparr>C = c, Data = (Data s)(i \<mapsto> rowmap(j \<mapsto> v))\<rparr>)"

definition Get :: "Sparse \<Rightarrow> int \<Rightarrow> int \<Rightarrow> real" where
  "Get s i j = lookup0 (case Data s i of None \<Rightarrow> Map.empty | Some r \<Rightarrow> r) j"

definition Increment :: "Sparse \<Rightarrow> int \<Rightarrow> int \<Rightarrow> Sparse" where
  "Increment s i j =
     (let rowmap = (case Data s i of None \<Rightarrow> Map.empty | Some r \<Rightarrow> r);
          c = (if j > C s then j else C s)
      in \<lparr>C = c, Data = (Data s)(i \<mapsto> rowmap(j \<mapsto> lookup0 rowmap j + 1))\<rparr>)"

text \<open>
  A sparse matrix in use is \<open>NewSparse\<close> after a sequence of calls of \<open>Set\<close> and
  \<open>Increment\<close>; \<open>touched\<close> is the coordinate a call was given.
\<close>

datatype call = SetCall int int real | IncrementCall int int

fun perform :: "Sparse \<Rightarrow> call \<Rightarrow> Sparse" where
  "perform s (SetCall i j v) = Set s i j v"
| "perform s (IncrementCall i j) = Increment s i j"

fun touched :: "call \<Rightarrow> int \<times> int" where
  "touched (SetCall i j v) = (i, j)"
| "touched (IncrementCall i j) = (i, j)"

definition after_calls :: "call list \<Rightarrow> Sparse" where
  "after_calls cs = foldl perform NewSparse cs"

text \<open>The value stored for a coordinate, if there is one.\<close>

definition cell :: "Sparse \<Rightarrow> int \<Rightarrow> int \<Rightarrow> real option" where
  "cell s i j = (case Data s i of None \<Rightarrow> None | Some r \<Rightarrow> r j)"

section \<open>Shared facts\<close>

lemma quo_pos: "0 \<le> x \<Longrightarrow> 0 < y \<Longrightarrow> quo x y = Inr (x div y)"
  by (simp add: quo_def sgn_if)

lemma Rows_pos: "0 < columns m \<Longrightarrow> Rows m = Inr (int (length (data m)) div columns m)"
  by (simp add: Rows_def quo_pos)

lemma check_pos:
  "0 < columns m \<Longrightarrow>
   checkRowAndColumnBounds m i column =
     Inr (if i > int (length (data m)) div columns m \<or> i < 0 then Some ErrRowIndex
          else if column < 0 \<or> column > columns m then Some ErrColumnIndex
          else None)"
  by (simp add: checkRowAndColumnBounds_def quo_pos)

lemma cell_offset_in_buffer:
  assumes "0 \<le> i" "i < int n div c" "0 \<le> column" "column < c"
  shows "0 \<le> i * c + column \<and> i * c + column < int n"
proof -
  have c: "0 < c" using assms by simp
  have "i + 1 \<le> int n div c" using assms by simp
  then have "(i + 1) * c \<le> (int n div c) * c" using c by (simp add: mult_right_mono)
  also have "\<dots> \<le> int n" using c by (metis div_mult_mod_eq le_add_same_cancel1 pos_mod_sign)
  finally have "i * c + c \<le> int n" by (simp add: algebra_simps)
  moreover have "0 \<le> i * c" using assms c by simp
  ultimately show ?thesis using assms by linarith
qed

lemma Next_step:
  "Rows (Matrix it) = Inr r \<Longrightarrow> Next it = Inr (row it + 1 \<le> r, it\<lparr>row := row it + 1\<rparr>)"
  by (auto simp: Next_def Let_def)

lemma Next_calls_from:
  "Rows m = Inr r \<Longrightarrow>
   Next_calls n \<lparr>Matrix = m, row = s\<rparr>
     = Inr (map (\<lambda>k. s + 1 + int k \<le> r) [0..<n], \<lparr>Matrix = m, row = s + int n\<rparr>)"
proof (induction n arbitrary: s)
  case 0
  then show ?case by simp
next
  case (Suc n)
  have step: "Next \<lparr>Matrix = m, row = s\<rparr> = Inr (s + 1 \<le> r, \<lparr>Matrix = m, row = s + 1\<rparr>)"
    using Next_step [of "\<lparr>Matrix = m, row = s\<rparr>" r] Suc.prems by simp
  have shift: "map (\<lambda>k. s + 1 + int k \<le> r) [0..<Suc n]
                 = (s + 1 \<le> r) # map (\<lambda>k. s + 1 + 1 + int k \<le> r) [0..<n]"
    by (auto simp add: upt_conv_Cons map_Suc_upt [symmetric] simp del: upt_Suc)
  show ?case
    using Suc.IH [OF Suc.prems, of "s + 1"] step shift by (simp del: upt_Suc add: add.assoc)
qed

lemma verdicts_replicate:
  "map (\<lambda>k. int k \<le> r) [0..<n]
     = replicate (min n (nat (r + 1))) True @ replicate (n - nat (r + 1)) False"
  by (rule nth_equalityI) (auto simp: nth_append)

lemma index_panic: "index s k = Inl p \<Longrightarrow> p = IndexOutOfRange"
  by (simp add: index_def split: if_splits)

lemma assign_panic: "assign s k v = Inl p \<Longrightarrow> p = IndexOutOfRange"
  by (simp add: assign_def split: if_splits)

lemma copy_indices_panic: "copy_indices src buf ks = Inl p \<Longrightarrow> p = IndexOutOfRange"
  by (induction ks arbitrary: buf) (auto split: sum.splits dest: index_panic assign_panic)

lemma copy_indices_in_range:
  "copy_indices src buf ks = Inr buf' \<Longrightarrow> k \<in> set ks \<Longrightarrow> 0 \<le> k \<and> k < int (length src)"
  by (induction ks arbitrary: buf) (auto simp: index_def split: sum.splits if_splits)

lemma row_end_outside:
  assumes "0 < c" shows "int n \<le> (int n div c) * c + c - 1"
proof -
  have "int n = (int n div c) * c + int n mod c" by simp
  moreover have "int n mod c < c" using assms by simp
  ultimately show ?thesis by linarith
qed

lemma AppendColumn_loop_panics:
  assumes c: "0 < columns m" and mat: "Matrix iter = m" and lo: "-1 \<le> row iter"
    and hi: "row iter < int (length (data m)) div columns m"
  shows "AppendColumn_loop m d iter buf = Inl IndexOutOfRange"
  using mat lo hi
proof (induction "nat (int (length (data m)) div columns m - row iter)" arbitrary: iter buf)
  case 0
  then show ?case by simp
next
  case (Suc n)
  let ?r = "int (length (data m)) div columns m"
  let ?iter' = "iter\<lparr>row := row iter + 1\<rparr>"
  have rows: "Rows (Matrix iter) = Inr ?r" using c Suc.prems(1) by (simp add: Rows_pos)
  have nxt: "Next iter = Inr (True, ?iter')"
    using Next_step [OF rows] Suc.prems(3) by simp
  have ind: "RowIndices ?iter' = [(row iter + 1) * columns m .. (row iter + 1) * columns m + columns m - 1]"
    using Suc.prems by (simp add: RowIndices_def Columns_def Let_def)
  show ?case
  proof (cases "copy_indices (data m) buf (RowIndices ?iter')")
    case (Inl p)
    then show ?thesis
      using nxt copy_indices_panic [OF Inl] by (simp add: AppendColumn_loop.simps [of m d iter buf])
  next
    case (Inr buf1)
    have last_in: "(row iter + 1) * columns m + columns m - 1 \<in> set (RowIndices ?iter')"
      using c by (simp add: ind)
    have "(row iter + 1) * columns m + columns m - 1 < int (length (data m))"
      using copy_indices_in_range [OF Inr last_in] by simp
    moreover have "int (length (data m)) \<le> ?r * columns m + columns m - 1"
      using row_end_outside [OF c] .
    ultimately have "(row iter + 1) * columns m < ?r * columns m" by linarith
    then have below: "row iter + 1 < ?r" using c by (simp add: mult_less_cancel_right)
    have IH: "AppendColumn_loop m d ?iter' buf2 = Inl IndexOutOfRange" for buf2
    proof (rule Suc.hyps(1))
      show "n = nat (?r - row ?iter')" using Suc.hyps(2) by simp
      show "Matrix ?iter' = m" using Suc.prems(1) by simp
      show "- 1 \<le> row ?iter'" using Suc.prems(2) by simp
      show "row ?iter' < ?r" using below by simp
    qed
    show ?thesis
      using nxt Inr IH
      by (auto simp: AppendColumn_loop.simps [of m d iter buf] Let_def
               split: sum.splits dest: index_panic assign_panic)
  qed
qed

lemma mult_le_iff_le_div:
  assumes "0 < (c::int)" shows "(k * c \<le> a) = (k \<le> a div c)"
proof
  assume "k * c \<le> a"
  then have "(k * c) div c \<le> a div c" using assms by (rule zdiv_mono1)
  then show "k \<le> a div c" using assms by simp
next
  assume "k \<le> a div c"
  then have "k * c \<le> (a div c) * c" using assms by (simp add: mult_right_mono)
  also have "\<dots> \<le> a" using assms by (metis div_mult_mod_eq le_add_same_cancel1 pos_mod_sign)
  finally show "k * c \<le> a" .
qed

lemma row_guard_iff:
  assumes "0 < c"
  shows "(int j * c + c < L - 1) = (j < nat ((L - 2) div c))"
proof -
  have "(int j * c + c < L - 1) = ((int j + 1) * c \<le> L - 2)"
    by (auto simp add: algebra_simps)
  also have "\<dots> = (int j + 1 \<le> (L - 2) div c)"
    using assms by (rule mult_le_iff_le_div)
  also have "\<dots> = (j < nat ((L - 2) div c))" by linarith
  finally show ?thesis .
qed

lemma GetColumnData_loop_from:
  assumes c: "0 < columns m" and col: "0 \<le> column" "column < columns m"
  shows "GetColumnData_loop m column (int j * columns m) acc
           = Some (Inr (acc @ map (\<lambda>k. data m ! nat (int k * columns m + column))
                                [j ..< nat ((int (length (data m)) - 2) div columns m)]))"
proof (induction "nat ((int (length (data m)) - 2) div columns m) - j" arbitrary: j acc)
  case 0
  then have "\<not> j < nat ((int (length (data m)) - 2) div columns m)" by simp
  then have "\<not> int j * columns m + columns m < int (length (data m)) - 1"
    using row_guard_iff [OF c] by simp
  then show ?case using 0 by (simp add: GetColumnData_loop.simps [of m column "int j * columns m"])
next
  case (Suc d)
  let ?n = "nat ((int (length (data m)) - 2) div columns m)"
  have j: "j < ?n" using Suc.hyps(2) by simp
  then have guard: "int j * columns m + columns m < int (length (data m)) - 1"
    using row_guard_iff [OF c] by simp
  have "0 \<le> int j * columns m" using c by simp
  then have inr: "0 \<le> int j * columns m + column \<and> int j * columns m + column < int (length (data m))"
    using guard col by linarith
  have next_i: "int j * columns m + columns m = int (Suc j) * columns m"
    by (simp add: algebra_simps)
  have IH: "GetColumnData_loop m column (int (Suc j) * columns m) acc'
           = Some (Inr (acc' @ map (\<lambda>k. data m ! nat (int k * columns m + column)) [Suc j ..< ?n]))" for acc'
    using Suc.hyps(1) [of "Suc j"] Suc.hyps(2) by simp
  have "GetColumnData_loop m column (int j * columns m) acc
          = GetColumnData_loop m column (int (Suc j) * columns m)
              (acc @ [data m ! nat (int j * columns m + column)])"
    using guard inr next_i
    by (subst GetColumnData_loop.simps) (simp add: index_def)
  then show ?case using IH j by (simp add: upt_conv_Cons)
qed

lemma Get_cell: "Get s i j = (case cell s i j of None \<Rightarrow> 0 | Some v \<Rightarrow> v)"
  by (simp add: Get_def cell_def lookup0_def split: option.splits)

lemma cell_perform: "touched c \<noteq> (i, j) \<Longrightarrow> cell (perform s c) i j = cell s i j"
  by (cases c) (auto simp: cell_def Set_def Increment_def Let_def split: option.splits)

lemma cell_foldl: "(i, j) \<notin> touched ` set cs \<Longrightarrow> cell (foldl perform s cs) i j = cell s i j"
  by (induction cs arbitrary: s) (auto simp: cell_perform)

lemma cell_Increment: "cell (Increment s i j) i j = Some ((case cell s i j of None \<Rightarrow> 0 | Some v \<Rightarrow> v) + 1)"
  by (simp add: cell_def Increment_def Let_def lookup0_def split: option.splits)

section \<open>Claims about the dense matrix\<close>

text \<open>
  C9. \<open>Rows\<close> divides the buffer length by the column count with no guard. On a matrix
  whose column count is 0 (as \<open>NewMatrixFloat64 0\<close> creates it) every call of \<open>Rows\<close>,
  and so of \<open>Dimensions\<close>, is a division by zero; on a matrix with a positive column count
  \<open>Rows\<close> returns, and its value is the length of the buffer divided by the column count.
\<close>

theorem Rows_divides_by_columns:
  "(columns m = 0 \<longrightarrow> Rows m = Inl DivideByZero \<and> Dimensions m = Inl DivideByZero)
   \<and> columns (NewMatrixFloat64 0 :: 'a MatrixFloat64) = 0
   \<and> (0 < columns m \<longrightarrow> Rows m = Inr (int (length (data m)) div columns m)
                          \<and> Dimensions m = Inr (int (length (data m)) div columns m, columns m))"
proof -
  have zero: "Rows m = Inl DivideByZero \<and> Dimensions m = Inl DivideByZero" if "columns m = 0"
    using that by (simp add: Dimensions_def Rows_def quo_def)
  have pos: "Dimensions m = Inr (int (length (data m)) div columns m, columns m)" if "0 < columns m"
    using that by (simp add: Dimensions_def Rows_pos)
  show ?thesis using zero pos by (simp add: Rows_pos NewMatrixFloat64_def)
qed

theorem Rows_divides_by_columns_witness:
  "Rows (NewMatrixFloat64 0 :: real MatrixFloat64) = Inl DivideByZero
   \<and> Dimensions (NewMatrixFloat64 0 :: real MatrixFloat64) = Inl DivideByZero
   \<and> Rows \<lparr>data = [1, 2, 3, 4, 5, 6 :: real], columns = 3\<rparr> = Inr 2
   \<and> Dimensions \<lparr>data = [1, 2, 3, 4, 5, 6 :: real], columns = 3\<rparr> = Inr (2, 3)"
  using Rows_divides_by_columns [of "NewMatrixFloat64 0 :: real MatrixFloat64"]
        Rows_divides_by_columns [of "\<lparr>data = [1, 2, 3, 4, 5, 6 :: real], columns = 3\<rparr>"]
  by (simp add: NewMatrixFloat64_def)

text \<open>
  C1, as the code has it. \<open>AddRow\<close> returns \<open>ErrRowSize\<close> exactly when the length of the
  row differs from the column count, and then leaves the matrix as it was; otherwise it
  returns no error and appends exactly the row to the buffer. When the column count is
  positive, \<open>Rows\<close> is one more than before; when moreover the buffer length was a
  multiple of the column count, the new length is the new row count times the column count.
\<close>

theorem AddRow_appends_one_row:
  "(fst (AddRow m vs) = Some ErrRowSize \<longleftrightarrow> int (length vs) \<noteq> columns m)
   \<and> (fst (AddRow m vs) = None \<longleftrightarrow> int (length vs) = columns m)
   \<and> (int (length vs) \<noteq> columns m \<longrightarrow> snd (AddRow m vs) = m)
   \<and> (int (length vs) = columns m \<longrightarrow> snd (AddRow m vs) = m\<lparr>data := data m @ vs\<rparr>)
   \<and> (int (length vs) = columns m \<and> 0 < columns m \<longrightarrow>
        Rows m = Inr (int (length (data m)) div columns m)
        \<and> Rows (snd (AddRow m vs)) = Inr (int (length (data m)) div columns m + 1))
   \<and> (int (length vs) = columns m \<and> 0 < columns m \<and> int (length (data m)) mod columns m = 0 \<longrightarrow>
        int (length (data (snd (AddRow m vs))))
          = (int (length (data m)) div columns m + 1) * columns m)"
proof -
  have rows: "Rows (snd (AddRow m vs)) = Inr (int (length (data m)) div columns m + 1)"
    if "int (length vs) = columns m" "0 < columns m"
  proof -
    have "(int (length (data m)) + columns m) div columns m = int (length (data m)) div columns m + 1"
      using that(2) by simp
    then show ?thesis using that by (simp add: AddRow_def Rows_pos)
  qed
  have len: "int (length (data (snd (AddRow m vs)))) = (int (length (data m)) div columns m + 1) * columns m"
    if "int (length vs) = columns m" "0 < columns m" "int (length (data m)) mod columns m = 0"
  proof -
    have "int (length (data m)) = int (length (data m)) div columns m * columns m"
      using that(3) by (metis add.right_neutral div_mult_mod_eq)
    then show ?thesis using that(1) by (simp add: AddRow_def algebra_simps)
  qed
  show ?thesis using rows len by (simp add: AddRow_def Rows_pos)
qed

theorem AddRow_appends_one_row_witness:
  "fst (AddRow \<lparr>data = [1, 2, 3 :: real], columns = 3\<rparr> [1, 2]) = Some ErrRowSize
   \<and> snd (AddRow \<lparr>data = [1, 2, 3 :: real], columns = 3\<rparr> [1, 2]) = \<lparr>data = [1, 2, 3], columns = 3\<rparr>
   \<and> fst (AddRow \<lparr>data = [1, 2, 3 :: real], columns = 3\<rparr> [4, 5, 6]) = None
   \<and> snd (AddRow \<lparr>data = [1, 2, 3 :: real], columns = 3\<rparr> [4, 5, 6]) = \<lparr>data = [1, 2, 3, 4, 5, 6], columns = 3\<rparr>
   \<and> Rows \<lparr>data = [1, 2, 3 :: real], columns = 3\<rparr> = Inr 1
   \<and> Rows (snd (AddRow \<lparr>data = [1, 2, 3 :: real], columns = 3\<rparr> [4, 5, 6])) = Inr 2
   \<and> int (length (data (snd (AddRow \<lparr>data = [1, 2, 3 :: real], columns = 3\<rparr> [4, 5, 6])))) = 2 * 3"
  using AddRow_appends_one_row [where vs = "[1, 2 :: real]" and m = "\<lparr>data = [1, 2, 3 :: real], columns = 3\<rparr>"]
        AddRow_appends_one_row [where vs = "[4, 5, 6 :: real]" and m = "\<lparr>data = [1, 2, 3 :: real], columns = 3\<rparr>"]
  by (simp add: AddRow_def Rows_def quo_def)

text \<open>
  C1 as stated speaks of every dense matrix. With column count 0 the empty row is accepted,
  and \<open>Rows\<close> is a division by zero before and after the call: it does not grow by one.
\<close>

theorem AddRow_zero_columns_counterexample:
  "fst (AddRow (NewMatrixFloat64 0 :: real MatrixFloat64) []) = None
   \<and> Rows (NewMatrixFloat64 0 :: real MatrixFloat64) = Inl DivideByZero
   \<and> Rows (snd (AddRow (NewMatrixFloat64 0 :: real MatrixFloat64) [])) = Inl DivideByZero"
  by (simp add: AddRow_def NewMatrixFloat64_def Rows_def quo_def)

text \<open>
  C10. For a cell strictly inside the matrix (\<open>0 \<le> i < Rows()\<close> and
  \<open>0 \<le> column < columns\<close>) \<open>UpdateValue\<close> returns no error and writes the value at
  offset \<open>i * columns + column\<close>, which lies inside the buffer; every other element, the
  length of the buffer, the column count and the row count are as before.
\<close>

theorem UpdateValue_writes_one_cell:
  assumes "Rows m = Inr r" and "0 \<le> i" and "i < r" and "0 \<le> column" and "column < columns m"
  shows "UpdateValue m v i column
           = Inr (None, m\<lparr>data := (data m)[nat (i * columns m + column) := v]\<rparr>)
         \<and> nat (i * columns m + column) < length (data m)
         \<and> (data m)[nat (i * columns m + column) := v] ! nat (i * columns m + column) = v
         \<and> (\<forall>k. k \<noteq> nat (i * columns m + column) \<longrightarrow>
               (data m)[nat (i * columns m + column) := v] ! k = data m ! k)
         \<and> length ((data m)[nat (i * columns m + column) := v]) = length (data m)
         \<and> columns (m\<lparr>data := (data m)[nat (i * columns m + column) := v]\<rparr>) = columns m
         \<and> Rows (m\<lparr>data := (data m)[nat (i * columns m + column) := v]\<rparr>) = Inr r"
proof -
  have c: "0 < columns m" using assms by simp
  have r: "r = int (length (data m)) div columns m"
    using assms(1) c by (simp add: Rows_pos)
  have off: "0 \<le> i * columns m + column \<and> i * columns m + column < int (length (data m))"
    using cell_offset_in_buffer [of i "length (data m)" "columns m" column] assms r by simp
  have chk: "checkRowAndColumnBounds m i column = Inr None"
    using assms r c by (simp add: check_pos)
  have upd: "UpdateValue m v i column
           = Inr (None, m\<lparr>data := (data m)[nat (i * columns m + column) := v]\<rparr>)"
    using off by (simp add: UpdateValue_def chk assign_def)
  have rows: "Rows (m\<lparr>data := (data m)[nat (i * columns m + column) := v]\<rparr>) = Inr r"
    using assms(1) by (simp add: Rows_def)
  have idx: "nat (i * columns m + column) < length (data m)"
    using off by linarith
  show ?thesis using upd idx rows by simp
qed

theorem UpdateValue_writes_one_cell_witness:
  "UpdateValue \<lparr>data = [1, 2, 3, 4, 5, 6 :: real], columns = 3\<rparr> 9 1 0
     = Inr (None, \<lparr>data = [1, 2, 3, 9, 5, 6], columns = 3\<rparr>)"
proof -
  have "Rows \<lparr>data = [1, 2, 3, 4, 5, 6 :: real], columns = 3\<rparr> = Inr 2"
    by (simp add: Rows_def quo_def)
  from UpdateValue_writes_one_cell [OF this, of 1 0 9] show ?thesis
    by simp
qed

text \<open>
  C5. On a matrix of \<open>r\<close> rows and \<open>c > 0\<close> columns (a buffer of \<open>r * c\<close> elements) the
  bounds check rejects exactly \<open>i < 0\<close>, \<open>i > r\<close>, \<open>column < 0\<close> and \<open>column > c\<close>, so it
  accepts the row \<open>r\<close> and the column \<open>c\<close>. \<open>GetValue\<close> at row \<open>r\<close> then passes the check
  and indexes the buffer at an offset that is not below its length, which is the
  out-of-range panic; \<open>GetRow\<close> at row \<open>r\<close> passes the check and takes a window that
  starts at the length of the buffer, which either is the slice-bounds panic or, when the
  capacity allows it, shows spare elements from behind the buffer.
\<close>

theorem bounds_check_accepts_one_past_the_end:
  assumes "0 < columns m" and "int (length (data m)) = r * columns m"
  shows "Rows m = Inr r
         \<and> checkRowAndColumnBounds m i column =
             Inr (if i > r \<or> i < 0 then Some ErrRowIndex
                  else if column < 0 \<or> column > columns m then Some ErrColumnIndex
                  else None)
         \<and> checkRowAndColumnBounds m r (columns m) = Inr None
         \<and> (0 \<le> column \<and> column \<le> columns m \<longrightarrow>
               checkRowAndColumnBounds m r column = Inr None
               \<and> int (length (data m)) \<le> r * columns m + column
               \<and> GetValue m r column = Inl IndexOutOfRange)
         \<and> checkRowAndColumnBounds m r 0 = Inr None
         \<and> int (length (data m)) \<le> r * columns m
         \<and> GetRow m spare r =
             (if columns m \<le> int (length spare) then Inr (Inr (take (nat (columns m)) spare))
              else Inl SliceBoundsOutOfRange)"
proof -
  have r: "int (length (data m)) div columns m = r" using assms by simp
  have r0: "0 \<le> r" using r assms(1) by (metis of_nat_0_le_iff pos_imp_zdiv_nonneg_iff)
  have rows: "Rows m = Inr r" using assms(1) r by (simp add: Rows_pos)
  have chk: "checkRowAndColumnBounds m i column =
             Inr (if i > r \<or> i < 0 then Some ErrRowIndex
                  else if column < 0 \<or> column > columns m then Some ErrColumnIndex
                  else None)" for i column
    using assms(1) r by (simp add: check_pos)
  have gv: "GetValue m r column = Inl IndexOutOfRange" if "0 \<le> column" "column \<le> columns m"
    using that r0 assms by (simp add: GetValue_def chk index_def)
  have gr: "GetRow m spare r =
             (if columns m \<le> int (length spare) then Inr (Inr (take (nat (columns m)) spare))
              else Inl SliceBoundsOutOfRange)"
    using r0 assms by (simp add: GetRow_def chk slice_def)
  show ?thesis using rows chk gv gr r0 assms by simp
qed

theorem bounds_check_accepts_one_past_the_end_witness:
  "checkRowAndColumnBounds \<lparr>data = [1, 2, 3, 4, 5, 6 :: real], columns = 3\<rparr> 2 3 = Inr None
   \<and> GetValue \<lparr>data = [1, 2, 3, 4, 5, 6 :: real], columns = 3\<rparr> 2 0 = Inl IndexOutOfRange
   \<and> GetValue \<lparr>data = [1, 2, 3, 4, 5, 6 :: real], columns = 3\<rparr> 2 3 = Inl IndexOutOfRange
   \<and> GetRow \<lparr>data = [1, 2, 3, 4, 5, 6 :: real], columns = 3\<rparr> [] 2 = Inl SliceBoundsOutOfRange
   \<and> GetRow \<lparr>data = [1, 2, 3, 4, 5, 6 :: real], columns = 3\<rparr> [0, 0, 0, 0, 0, 0] 2 = Inr (Inr [0, 0, 0])"
proof -
  have h1: "0 < columns \<lparr>data = [1, 2, 3, 4, 5, 6 :: real], columns = 3\<rparr>" by simp
  have h2: "int (length (data \<lparr>data = [1, 2, 3, 4, 5, 6 :: real], columns = 3\<rparr>))
              = 2 * columns \<lparr>data = [1, 2, 3, 4, 5, 6 :: real], columns = 3\<rparr>" by simp
  show ?thesis
    using bounds_check_accepts_one_past_the_end [OF h1 h2, of 2 0 "[]"]
          bounds_check_accepts_one_past_the_end [OF h1 h2, of 2 3 "[0, 0, 0, 0, 0, 0]"]
    by simp
qed

section \<open>Claims about the iterator\<close>

text \<open>
  C6. On a fresh iterator over a matrix with \<open>r = len(data) / columns\<close> rows, call number
  \<open>k + 1\<close> of \<open>Next\<close> returns true exactly when \<open>k \<le> r\<close>: the first \<open>r + 1\<close> calls return
  true, the cursor going from 0 to \<open>r\<close>, and every later call returns false.
\<close>

theorem Next_true_for_rows_plus_one_calls:
  assumes "Rows m = Inr r"
  shows "Next_calls n (Iterator m)
           = Inr (map (\<lambda>k. int k \<le> r) [0..<n], \<lparr>Matrix = m, row = int n - 1\<rparr>)
         \<and> map (\<lambda>k. int k \<le> r) [0..<n]
             = replicate (min n (nat (r + 1))) True @ replicate (n - nat (r + 1)) False"
  using Next_calls_from [OF assms, of n "-1"] verdicts_replicate [of r n]
  by (simp add: Iterator_def)

theorem Next_true_for_rows_plus_one_calls_witness:
  "Next_calls 5 (Iterator \<lparr>data = [1, 2, 3, 4, 5, 6 :: real], columns = 3\<rparr>)
     = Inr ([True, True, True, False, False],
            \<lparr>Matrix = \<lparr>data = [1, 2, 3, 4, 5, 6], columns = 3\<rparr>, row = 4\<rparr>)"
proof -
  have "Rows \<lparr>data = [1, 2, 3, 4, 5, 6 :: real], columns = 3\<rparr> = Inr 2"
    by (simp add: Rows_def quo_def)
  from Next_true_for_rows_plus_one_calls [OF this, of 5] show ?thesis
    by (simp add: upt_conv_Cons)
qed

text \<open>
  C3 asks \<open>AppendColumn\<close> to return with one more column. The code does not: since
  \<open>Next\<close> is true once more at the row behind the last, the loop reads \<open>m.data\<close> at an
  index outside its length, and on every matrix with a positive column count
  \<open>AppendColumn\<close> ends in the out-of-range panic. The matrix of the package's own test
  (one row \<open>[1, 2, 3]\<close>, then \<open>AppendColumn(0)\<close>) is the instance below.
\<close>

theorem AppendColumn_panics:
  assumes "0 < columns m"
  shows "AppendColumn m defaultValue = Inl IndexOutOfRange"
proof -
  let ?r = "int (length (data m)) div columns m"
  have r0: "0 \<le> ?r" using assms by (simp add: pos_imp_zdiv_nonneg_iff)
  have loop: "AppendColumn_loop m defaultValue (Iterator m) buf = Inl IndexOutOfRange" for buf
    using AppendColumn_loop_panics [OF assms, of "Iterator m"] r0 by (simp add: Iterator_def)
  show ?thesis
    using assms r0 loop by (simp add: AppendColumn_def Rows_pos makeslice_def)
qed

theorem AppendColumn_panics_witness:
  "AppendColumn \<lparr>data = [1, 2, 3 :: real], columns = 3\<rparr> 0 = Inl IndexOutOfRange"
  using AppendColumn_panics [of "\<lparr>data = [1, 2, 3 :: real], columns = 3\<rparr>" 0] by simp

section \<open>Claims about the row scans\<close>

text \<open>
  C2 asks \<open>GetColumnData\<close> for the column's value from every complete row. The error
  part holds: \<open>ErrColumnIndex\<close> is returned exactly when \<open>column < 0\<close> or
  \<open>column \<ge> columns\<close>. The values do not: the loop header \<open>i + columns < len(data) - 1\<close>
  leaves the scan before the last row, so for a valid column the result is the column's
  value from the first \<open>(len(data) - 2) / columns\<close> rows only. On two rows of two columns
  that is one value.
\<close>

theorem GetColumnData_stops_before_last_row:
  "(GetColumnData m column = Some (Inr (Inl ErrColumnIndex)) \<longleftrightarrow> column < 0 \<or> columns m \<le> column)
   \<and> (0 \<le> column \<and> column < columns m \<longrightarrow>
        GetColumnData m column
          = Some (Inr (Inr (map (\<lambda>k. data m ! nat (int k * columns m + column))
                                [0 ..< nat ((int (length (data m)) - 2) div columns m)]))))"
proof -
  have ok: "GetColumnData m column
          = Some (Inr (Inr (map (\<lambda>k. data m ! nat (int k * columns m + column))
                                [0 ..< nat ((int (length (data m)) - 2) div columns m)])))"
    if "0 \<le> column" "column < columns m"
  proof -
    have "0 < columns m" using that by simp
    from GetColumnData_loop_from [OF this that, of 0 "[]"] that
    show ?thesis by (simp add: GetColumnData_def)
  qed
  show ?thesis
  proof (cases "0 \<le> column \<and> column < columns m")
    case True
    then show ?thesis using ok by simp
  next
    case False
    then show ?thesis by (auto simp: GetColumnData_def)
  qed
qed

theorem GetColumnData_stops_before_last_row_witness:
  "GetColumnData \<lparr>data = [1, 2, 3, 4 :: real], columns = 2\<rparr> 0 = Some (Inr (Inr [1]))
   \<and> GetColumnData \<lparr>data = [1, 2, 3, 4 :: real], columns = 2\<rparr> 2 = Some (Inr (Inl ErrColumnIndex))"
  using GetColumnData_stops_before_last_row [of "\<lparr>data = [1, 2, 3, 4 :: real], columns = 2\<rparr>" 0]
        GetColumnData_stops_before_last_row [of "\<lparr>data = [1, 2, 3, 4 :: real], columns = 2\<rparr>" 2]
  by simp

text \<open>
  C4 asks \<open>MaxSum\<close> and \<open>MinSum\<close> for the row of greatest and least sum. The code
  compares every row sum with a bound that it never updates, and its loop header leaves
  the scan before the last row: on the rows \<open>[5, 5]\<close>, \<open>[1, 1]\<close>, \<open>[0, 0]\<close> both
  return \<open>[1, 1]\<close>, the last row scanned, where the greatest sum is that of \<open>[5, 5]\<close> and
  the least that of \<open>[0, 0]\<close>; on a matrix of one row \<open>MaxSum\<close> returns the nil slice.
\<close>

theorem MaxSum_MinSum_return_last_scanned_row:
  "MaxSum \<lparr>data = [5, 5, 1, 1, 0, 0], columns = 2\<rparr> = Some (Inr [1, 1])
   \<and> MinSum \<lparr>data = [5, 5, 1, 1, 0, 0], columns = 2\<rparr> = Some (Inr [1, 1])
   \<and> MaxSum \<lparr>data = [1, 2, 3], columns = 3\<rparr> = Some (Inr [])"
  by (simp add: MaxSum_def MinSum_def MaxSum_loop.simps MinSum_loop.simps slice_def Sum_def
        SmallestNonzeroFloat64_def MaxFloat64_def)

text \<open>
  C8. With a negative amount \<open>Sample\<close> returns a pointer to a matrix it allocated, which
  has no elements and the receiver's column count, and the receiver is as before. With
  an amount that is at least the number of elements of the buffer, it returns the
  receiver's own pointer, and the receiver is as before.
\<close>

theorem Sample_negative_or_large_amount:
  assumes "p < length st"
  shows "(amount < 0 \<longrightarrow>
            Sample below rnd st p amount
              = Some (Inr (st @ [\<lparr>data = [], columns = columns (st ! p)\<rparr>], length st))
            \<and> length st \<noteq> p
            \<and> (columns (st ! p) \<noteq> 0 \<longrightarrow>
                   Rows \<lparr>data = [] :: 'a list, columns = columns (st ! p)\<rparr> = Inr 0)
            \<and> (st @ [\<lparr>data = [], columns = columns (st ! p)\<rparr>]) ! p = st ! p)
         \<and> (amount \<ge> int (length (data (st ! p))) \<longrightarrow>
            Sample below rnd st p amount
              = Some (Inr (st @ [\<lparr>data = [], columns = columns (st ! p)\<rparr>], p))
            \<and> (st @ [\<lparr>data = [], columns = columns (st ! p)\<rparr>]) ! p = st ! p)"
  using assms
  by (auto simp: Sample_def alloc_def NewMatrixFloat64_def Let_def nth_append Rows_def quo_def)

theorem Sample_negative_or_large_amount_witness:
  "Sample (\<lambda>d a n. d * n < a * 100) (\<lambda>k. 42) [\<lparr>data = [1, 2, 3, 4 :: real], columns = 2\<rparr>] 0 (-1)
     = Some (Inr ([\<lparr>data = [1, 2, 3, 4], columns = 2\<rparr>, \<lparr>data = [], columns = 2\<rparr>], 1))
   \<and> Rows \<lparr>data = [] :: real list, columns = 2\<rparr> = Inr 0
   \<and> Sample (\<lambda>d a n. d * n < a * 100) (\<lambda>k. 42) [\<lparr>data = [1, 2, 3, 4 :: real], columns = 2\<rparr>] 0 4
     = Some (Inr ([\<lparr>data = [1, 2, 3, 4], columns = 2\<rparr>, \<lparr>data = [], columns = 2\<rparr>], 0))"
  using Sample_negative_or_large_amount
          [of 0 "[\<lparr>data = [1, 2, 3, 4 :: real], columns = 2\<rparr>]" "-1"
              "\<lambda>d a n. d * n < a * 100" "\<lambda>k. 42"]
        Sample_negative_or_large_amount
          [of 0 "[\<lparr>data = [1, 2, 3, 4 :: real], columns = 2\<rparr>]" 4
              "\<lambda>d a n. d * n < a * 100" "\<lambda>k. 42"]
  by (simp add: Sample_def alloc_def NewMatrixFloat64_def)

section \<open>Claims about the sparse matrix\<close>

text \<open>
  C7. On a sparse matrix built by any calls of \<open>Set\<close> and \<open>Increment\<close>, \<open>Get\<close> at a
  coordinate that none of the calls was given returns 0 (\<open>Get\<close> has no error result),
  and after \<open>Increment\<close> at that coordinate \<open>Get\<close> returns 1.
\<close>

theorem Get_untouched_is_zero:
  assumes "(i, j) \<notin> touched ` set cs"
  shows "Get (after_calls cs) i j = 0
         \<and> Get (Increment (after_calls cs) i j) i j = 1"
proof -
  have "cell (after_calls cs) i j = None"
    using cell_foldl [OF assms, of NewSparse] by (simp add: after_calls_def cell_def NewSparse_def)
  then show ?thesis by (simp add: Get_cell cell_Increment)
qed

theorem Get_untouched_is_zero_witness:
  "Get (after_calls [SetCall 0 5 2, IncrementCall 0 1, SetCall 3 4 7]) 0 4 = 0
   \<and> Get (Increment (after_calls [SetCall 0 5 2, IncrementCall 0 1, SetCall 3 4 7]) 0 4) 0 4 = 1
   \<and> Get (after_calls [SetCall 0 5 2, IncrementCall 0 1, SetCall 3 4 7]) 8 8 = 0
   \<and> Get (Increment (after_calls [SetCall 0 5 2, IncrementCall 0 1, SetCall 3 4 7]) 8 8) 8 8 = 1"
  using Get_untouched_is_zero [of 0 4 "[SetCall 0 5 2, IncrementCall 0 1, SetCall 3 4 7]"]
        Get_untouched_is_zero [of 8 8 "[SetCall 0 5 2, IncrementCall 0 1, SetCall 3 4 7]"]
  by simp


end
